theory Spec2Isabelle
  imports Main "HOL-Library.Sublist" "HOL-Library.List_Lexorder"
begin

section \<open>Strings\<close>

text \<open>
  A Python \<open>str\<close> is a sequence of Unicode code points, and the bot slices, lower-cases and
  matches by code point, so a string is a list of code points here. The chats are Russian:
  \<open>0x430..0x44F\<close> are the small Cyrillic letters, \<open>0x451\<close> is small io.

  The white-space class below is the complete set of code points for which \<open>str.isspace\<close>
  holds; \<open>str.strip\<close>, \<open>str.split()\<close> and the pattern \<open>\s\<close> all use it. The case
  mapping and the word class \<open>\w\<close> are written out for the Basic Latin, Latin-1 Supplement and
  Cyrillic (\<open>0x400..0x4FF\<close>) blocks; a code point outside these blocks is left unchanged by
  \<open>lower_cp\<close> and is not a word character.
\<close>

type_synonym ustr = "nat list"

definition ascii :: "string \<Rightarrow> ustr" where
  "ascii s = map of_char s"

definition is_space :: "nat \<Rightarrow> bool" where
  "is_space c \<longleftrightarrow>
     (9 \<le> c \<and> c \<le> 13) \<or> (28 \<le> c \<and> c \<le> 32) \<or> c = 133 \<or> c = 160 \<or> c = 5760 \<or>
     (8192 \<le> c \<and> c \<le> 8202) \<or> c = 8232 \<or> c = 8233 \<or> c = 8239 \<or> c = 8287 \<or> c = 12288"

definition lower_cp :: "nat \<Rightarrow> nat" where
  "lower_cp c =
     (if (65 \<le> c \<and> c \<le> 90) \<or> (192 \<le> c \<and> c \<le> 214) \<or> (216 \<le> c \<and> c \<le> 222) \<or>
         (1040 \<le> c \<and> c \<le> 1071) then c + 32
      else if 1024 \<le> c \<and> c \<le> 1039 then c + 80
      else if c = 1216 then 1231
      else if ((1120 \<le> c \<and> c \<le> 1153) \<or> (1162 \<le> c \<and> c \<le> 1215) \<or> (1232 \<le> c \<and> c \<le> 1279))
              \<and> even c then c + 1
      else if 1217 \<le> c \<and> c \<le> 1230 \<and> odd c then c + 1
      else c)"

definition is_word :: "nat \<Rightarrow> bool" where
  "is_word c \<longleftrightarrow>
     (48 \<le> c \<and> c \<le> 57) \<or> (65 \<le> c \<and> c \<le> 90) \<or> c = 95 \<or> (97 \<le> c \<and> c \<le> 122) \<or>
     c = 170 \<or> c = 178 \<or> c = 179 \<or> c = 181 \<or> c = 185 \<or> c = 186 \<or> (188 \<le> c \<and> c \<le> 190) \<or>
     (192 \<le> c \<and> c \<le> 214) \<or> (216 \<le> c \<and> c \<le> 246) \<or> (248 \<le> c \<and> c \<le> 255) \<or>
     (1024 \<le> c \<and> c \<le> 1153) \<or> (1162 \<le> c \<and> c \<le> 1279)"

definition lower :: "ustr \<Rightarrow> ustr" where
  "lower s = map lower_cp s"

definition lstrip :: "ustr \<Rightarrow> ustr" where
  "lstrip s = dropWhile is_space s"

definition rstrip :: "ustr \<Rightarrow> ustr" where
  "rstrip s = rev (dropWhile is_space (rev s))"

definition strip :: "ustr \<Rightarrow> ustr" where
  "strip s = rstrip (lstrip s)"

text \<open>\<open>s.replace(" ", "")\<close>: only U+0020 goes.\<close>

definition remove_spaces :: "ustr \<Rightarrow> ustr" where
  "remove_spaces s = filter (\<lambda>c. c \<noteq> 32) s"

text \<open>\<open>s.replace('"', '').replace("'", "")\<close>.\<close>

definition remove_quotes :: "ustr \<Rightarrow> ustr" where
  "remove_quotes s = filter (\<lambda>c. c \<noteq> 39) (filter (\<lambda>c. c \<noteq> 34) s)"

text \<open>\<open>s.split()\<close>: the maximal runs of non-white-space, in order. The first argument is the
  word being read, reversed.\<close>

fun split_acc :: "ustr \<Rightarrow> ustr \<Rightarrow> ustr list" where
  "split_acc w [] = (if w = [] then [] else [rev w])"
| "split_acc w (c # cs) =
     (if is_space c then (if w = [] then split_acc [] cs else rev w # split_acc [] cs)
      else split_acc (c # w) cs)"

definition split_ws :: "ustr \<Rightarrow> ustr list" where
  "split_ws s = split_acc [] s"

text \<open>\<open>s.split(' ', 1)\<close>: cut at the first U+0020, if there is one.\<close>

definition split_space1 :: "ustr \<Rightarrow> ustr list" where
  "split_space1 s =
     (if 32 \<in> set s then [takeWhile (\<lambda>c. c \<noteq> 32) s, tl (dropWhile (\<lambda>c. c \<noteq> 32) s)] else [s])"

definition startswith :: "ustr \<Rightarrow> ustr \<Rightarrow> bool" where
  "startswith s p \<longleftrightarrow> take (length p) s = p"

definition endswith :: "ustr \<Rightarrow> ustr \<Rightarrow> bool" where
  "endswith s p \<longleftrightarrow> length p \<le> length s \<and> drop (length s - length p) s = p"

section \<open>Regular expressions\<close>

text \<open>
  The six patterns of \<open>find_subject_in_message\<close> use literals, the classes \<open>\s\<close>, \<open>.\<close> and
  \<open>[z]\<close>, greedy \<open>+\<close> and \<open>?\<close> on a class, alternation and capturing groups. \<open>matches r\<close>
  lists every way \<open>r\<close> can match at the start of the input in the order in which Python's
  backtracking matcher tries them (a greedy quantifier tries the longest run first, an
  alternation its left branch first), so the match the matcher reports is the head of the
  list. A match state is the rest of the input and the groups closed so far, the last
  closed first: \<open>match.lastindex\<close> is the number at the head.
\<close>

datatype cclass = Space | Dot | OneOf "nat list"

fun in_class :: "cclass \<Rightarrow> nat \<Rightarrow> bool" where
  "in_class Space c = is_space c"
| "in_class Dot c = (c \<noteq> 10)"
| "in_class (OneOf cs) c = (c \<in> set cs)"

datatype regex =
    Lit ustr
  | One cclass
  | Plus cclass
  | Opt cclass
  | Seq regex regex
  | Alt regex regex
  | Group nat regex

type_synonym caps = "(nat \<times> ustr) list"

fun plus_rests :: "cclass \<Rightarrow> ustr \<Rightarrow> ustr list" where
  "plus_rests cc [] = []"
| "plus_rests cc (c # cs) = (if in_class cc c then plus_rests cc cs @ [cs] else [])"

fun matches :: "regex \<Rightarrow> ustr \<times> caps \<Rightarrow> (ustr \<times> caps) list" where
  "matches (Lit w) (s, g) = (if startswith s w then [(drop (length w) s, g)] else [])"
| "matches (One cc) (s, g) =
     (case s of [] \<Rightarrow> [] | c # cs \<Rightarrow> if in_class cc c then [(cs, g)] else [])"
| "matches (Plus cc) (s, g) = map (\<lambda>r. (r, g)) (plus_rests cc s)"
| "matches (Opt cc) (s, g) =
     (case s of [] \<Rightarrow> [(s, g)]
      | c # cs \<Rightarrow> if in_class cc c then [(cs, g), (s, g)] else [(s, g)])"
| "matches (Seq a b) st = concat (map (matches b) (matches a st))"
| "matches (Alt a b) st = matches a st @ matches b st"
| "matches (Group n r) (s, g) =
     map (\<lambda>(s', g'). (s', (n, take (length s - length s') s) # g')) (matches r (s, g))"

text \<open>\<open>re.search\<close>: the first start position, from the left, at which the pattern matches.\<close>

fun re_search :: "regex \<Rightarrow> ustr \<Rightarrow> caps option" where
  "re_search r [] = (case matches r ([], []) of [] \<Rightarrow> None | (_, g) # _ \<Rightarrow> Some g)"
| "re_search r (c # cs) =
     (case matches r (c # cs, []) of [] \<Rightarrow> re_search r cs | (_, g) # _ \<Rightarrow> Some g)"

section \<open>The subject store\<close>

text \<open>
  \<open>board_data\<close> is a Python dict from subject key to \<open>{"text", "photo_id"}\<close>. A dict
  iterates in insertion order and the alias map depends on that order, so the store is an
  association list with distinct keys: assignment replaces the value of a present key in
  place and appends a new key, \<open>del\<close> removes the key.
\<close>

record entry =
  hw_text :: ustr
  photo_id :: "ustr option"

type_synonym board = "(ustr \<times> entry) list"

definition keys :: "board \<Rightarrow> ustr list" where
  "keys bd = map fst bd"

fun setitem :: "board \<Rightarrow> ustr \<Rightarrow> entry \<Rightarrow> board" where
  "setitem [] k v = [(k, v)]"
| "setitem ((k', v') # bd) k v = (if k' = k then (k, v) # bd else (k', v') # setitem bd k v)"

definition delitem :: "board \<Rightarrow> ustr \<Rightarrow> board" where
  "delitem bd k = filter (\<lambda>(k', v). k' \<noteq> k) bd"

section \<open>The subject resolver\<close>

datatype error = IndexError | KeyError | AttributeError | DateError

text \<open>One round of the loop of \<open>build_subject_alias_map\<close>; a later assignment to the same
  alias overwrites the earlier one.\<close>

definition alias_step :: "ustr \<Rightarrow> (ustr \<rightharpoonup> ustr) \<Rightarrow> (ustr \<rightharpoonup> ustr)" where
  "alias_step subj_key alias_map =
     (if subj_key = [] then alias_map
      else
        let key = lower subj_key;
            m1 = alias_map(key \<mapsto> key);
            short = take 4 (remove_spaces key);
            m2 = (if 2 \<le> length short then m1(short \<mapsto> key) else m1);
            nospace = remove_spaces key;
            m3 = (if nospace \<noteq> [] \<and> nospace \<noteq> key then m2(nospace \<mapsto> key) else m2);
            m4 = (if 2 \<le> length nospace then m3(take 4 nospace \<mapsto> key) else m3)
        in m4)"

definition build_subject_alias_map :: "board \<Rightarrow> (ustr \<rightharpoonup> ustr)" where
  "build_subject_alias_map bd = fold alias_step (keys bd) Map.empty"

text \<open>\<open>re.sub(r'[^\wa-ya io]', '', w.lower()).strip()\<close>, the range being the small
  Cyrillic letters.\<close>

definition normalize_word :: "ustr \<Rightarrow> ustr" where
  "normalize_word w =
     strip (filter (\<lambda>c. is_word c \<or> (1072 \<le> c \<and> c \<le> 1103) \<or> c = 1105) (lower w))"

definition ws_plus :: regex where
  "ws_plus = Plus Space"

definition w_chto :: ustr where "w_chto = [1095, 1090, 1086]"
definition w_zadali :: ustr where "w_zadali = [1079, 1072, 1076, 1072, 1083, 1080]"
definition w_po :: ustr where "w_po = [1087, 1086]"
definition w_kakoe :: ustr where "w_kakoe = [1082, 1072, 1082, 1086, 1077]"
definition w_d :: ustr where "w_d = [1076]"

text \<open>The list \<open>patterns\<close>, in the source's order. The Cyrillic words are spelt in Latin
  letters in the names: \<open>chto\<close> (what), \<open>zadali\<close> (assigned), \<open>po\<close> (for), \<open>kakoe\<close> (which),
  \<open>d[z]?\<close> (homework); the last pattern has the Latin letters \<open>po\<close>.\<close>

definition patterns :: "regex list" where
  "patterns =
    [ Seq (Lit w_chto) (Seq ws_plus (Seq (Group 1 (Alt (Lit w_zadali) (Lit w_po)))
        (Seq ws_plus (Group 2 (Plus Dot))))),
      Seq (Lit w_chto) (Seq ws_plus (Seq (Lit w_po) (Seq ws_plus (Group 1 (Plus Dot))))),
      Seq (Lit w_chto) (Seq ws_plus (Seq (Lit w_zadali) (Seq ws_plus (Seq (Lit w_po)
        (Seq ws_plus (Group 1 (Plus Dot))))))),
      Seq (Lit w_kakoe) (Seq ws_plus (Seq (Lit w_d) (Seq (Opt (OneOf [1079])) (Seq ws_plus
        (Seq (Lit w_po) (Seq ws_plus (Group 1 (Plus Dot)))))))),
      Seq (Lit w_d) (Seq (Opt (OneOf [1079])) (Seq ws_plus (Seq (Lit w_po)
        (Seq ws_plus (Group 1 (Plus Dot)))))),
      Seq (Lit w_chto) (Seq (One Space) (Seq (Lit (ascii ''po'')) (Seq (One Space)
        (Group 1 (Plus Dot))))) ]"

text \<open>The inner loop over the candidates: an empty candidate is skipped, a candidate is
  looked up as it is and then by its first four characters without spaces.\<close>

fun try_candidates :: "(ustr \<rightharpoonup> ustr) \<Rightarrow> ustr list \<Rightarrow> ustr option" where
  "try_candidates alias_map [] = None"
| "try_candidates alias_map (cand # cands) =
     (if cand = [] then try_candidates alias_map cands
      else case alias_map cand of
        Some k \<Rightarrow> Some k
      | None \<Rightarrow>
          (case alias_map (take 4 (remove_spaces cand)) of
             Some k \<Rightarrow> Some k
           | None \<Rightarrow> try_candidates alias_map cands))"

definition candidates :: "ustr \<Rightarrow> ustr \<Rightarrow> ustr list" where
  "candidates first_word subject_block =
     [ normalize_word first_word,
       normalize_word subject_block,
       normalize_word (remove_quotes subject_block),
       strip (remove_quotes subject_block) ]"

text \<open>The loop over the patterns. \<open>match.group(match.lastindex)\<close> is the text of the group
  closed last; \<open>subject_block.split()[0]\<close> raises IndexError when the block, once stripped,
  is empty. A pattern whose candidates do not resolve is followed by the next pattern.\<close>

fun try_patterns :: "(ustr \<rightharpoonup> ustr) \<Rightarrow> ustr \<Rightarrow> regex list \<Rightarrow> error + ustr option" where
  "try_patterns alias_map text_norm [] = Inr None"
| "try_patterns alias_map text_norm (pattern # rest) =
     (case re_search pattern text_norm of
        None \<Rightarrow> try_patterns alias_map text_norm rest
      | Some [] \<Rightarrow> Inl IndexError
      | Some ((lastindex, block) # _) \<Rightarrow>
          if block = [] then try_patterns alias_map text_norm rest
          else
            let subject_block = strip block in
            case split_ws subject_block of
              [] \<Rightarrow> Inl IndexError
            | first_word # _ \<Rightarrow>
                (case try_candidates alias_map (candidates first_word subject_block) of
                   Some k \<Rightarrow> Inr (Some k)
                 | None \<Rightarrow> try_patterns alias_map text_norm rest))"

definition find_subject_in_message :: "board \<Rightarrow> ustr \<Rightarrow> error + ustr option" where
  "find_subject_in_message bd text =
     (if text = [] then Inr None
      else try_patterns (build_subject_alias_map bd) (strip (lower text)) patterns)"

section \<open>Configuration\<close>

definition TELEGRAM_CHAT_ID :: "int list" where
  "TELEGRAM_CHAT_ID = [- 1002415770314, - 1002425817720, 6066445210, - 1002362627260]"

definition ADMIN_ID :: "int list" where
  "ADMIN_ID = [6066445210]"

definition DEBUG_CHAT_ID :: int where
  "DEBUG_CHAT_ID = - 1002425817720"

text \<open>The test every write handler makes, negated there:
  \<open>chat_id not in TELEGRAM_CHAT_ID and chat_id != DEBUG_CHAT_ID\<close>.\<close>

definition work_chat :: "int \<Rightarrow> bool" where
  "work_chat chat_id \<longleftrightarrow> chat_id \<in> set TELEGRAM_CHAT_ID \<or> chat_id = DEBUG_CHAT_ID"

section \<open>Messages, bot state and effects\<close>

text \<open>
  A Telegram message has a text exactly when its content type is \<open>text\<close>, and a photo
  message has an optional caption and the file ids of its sizes, so \<open>message.text\<close>,
  \<open>message.caption\<close> and \<open>message.photo\<close> are read off the content.
\<close>

datatype content =
    Text ustr
  | Photo "ustr option" "ustr list"
  | Sticker "ustr option"
  | Other

record message =
  msg_from :: int
  msg_username :: "ustr option"
  msg_chat :: int
  msg_chat_private :: bool
  msg_content :: content
  msg_date :: int

record callback =
  cb_from :: int
  cb_chat :: int
  cb_data :: ustr

definition msg_text :: "message \<Rightarrow> ustr option" where
  "msg_text m = (case msg_content m of Text t \<Rightarrow> Some t | _ \<Rightarrow> None)"

text \<open>Python's truth value of an optional string: \<open>None\<close> and \<open>""\<close> are false.\<close>

definition truthy :: "ustr option \<Rightarrow> bool" where
  "truthy x \<longleftrightarrow> (case x of None \<Rightarrow> False | Some v \<Rightarrow> v \<noteq> [])"

datatype phase = waiting_for_subject | waiting_for_homework_details

record user_state =
  us_state :: phase
  us_subject :: "ustr option"

text \<open>
  The three process-wide registries. \<open>user_states\<close> and \<open>muted_users\<close> are a dict and a
  set whose order is never observed. The id of the last prompt kept in a user's state, the
  delayed deletion of messages and the debug log serve only the clean-up of the chat and are
  left out; calls of the chat transport are taken to return.
\<close>

record bot =
  board_data :: board
  muted_users :: "int set"
  user_states :: "int \<rightharpoonup> user_state"

text \<open>What a handler sends, by the text it uses in the source. \<open>capitalize\<close> of a subject
  in a text is not applied: the notice carries the subject as the handler has it.\<close>

datatype notice =
    PromptSubject
  | PromptDetails ustr
  | DeleteHelp
  | ListEmpty
  | ChooseSubject "ustr list"
  | Homework ustr ustr
  | SubjectNotFound ustr
  | AddCancelled
  | NothingToCancel
  | WorkChatsOnlyFunction
  | WorkChatsOnlyCommand
  | MutedDenied
  | MutedDeniedDel
  | SubjectEmpty
  | SubjectMissing
  | DetailsEmpty
  | HomeworkAdded ustr bool
  | SetNeedsCaption
  | SetFormat
  | SetQuoteError
  | SetSubjectEmpty
  | SetTextEmpty
  | SetFailed error
  | DelFormat
  | DelSubjectEmpty
  | HomeworkDeleted ustr
  | NoRights
  | MuteFormat
  | BadUserId
  | MuteFailed
  | UserMuted int
  | UserUnmuted int

text \<open>\<open>Send c n\<close> is \<open>bot.send_message\<close> or \<open>bot.reply_to\<close> into chat \<open>c\<close>, \<open>SendPhoto\<close> is
  \<open>bot.send_photo\<close>, \<open>SaveData\<close> and \<open>SaveMuted\<close> are the calls of \<open>save_data\<close> and
  \<open>save_muted_users\<close>, which write the registry as it is at that moment.\<close>

datatype effect =
    Send int notice
  | SendPhoto int ustr notice
  | SaveData
  | SaveMuted

definition deliver :: "int \<Rightarrow> ustr option \<Rightarrow> notice \<Rightarrow> effect" where
  "deliver target photo n =
     (case photo of
        None \<Rightarrow> Send target n
      | Some p \<Rightarrow> if p \<noteq> [] then SendPhoto target p n else Send target n)"

definition drop_state :: "bot \<Rightarrow> int \<Rightarrow> bot" where
  "drop_state s user = s\<lparr>user_states := (user_states s)(user := None)\<rparr>"

section \<open>Saving an entry\<close>

function str_nat :: "nat \<Rightarrow> ustr" where
  "str_nat n = (if n < 10 then [48 + n] else str_nat (n div 10) @ [48 + n mod 10])"
  by pat_completeness auto
termination
  by (relation "measure (\<lambda>n. n)") auto

declare str_nat.simps [simp del]

definition str_int :: "int \<Rightarrow> ustr" where
  "str_int i = (if i < 0 then 45 # str_nat (nat (- i)) else str_nat (nat i))"

definition two_digits :: "int \<Rightarrow> ustr" where
  "two_digits n = [48 + nat (n div 10), 48 + nat (n mod 10)]"

text \<open>The dict \<open>months_ru\<close>: the Russian month names in the genitive.\<close>

definition months_ru :: "(int \<times> ustr) list" where
  "months_ru =
    [ (1, [1103, 1085, 1074, 1072, 1088, 1103]),
      (2, [1092, 1077, 1074, 1088, 1072, 1083, 1103]),
      (3, [1084, 1072, 1088, 1090, 1072]),
      (4, [1072, 1087, 1088, 1077, 1083, 1103]),
      (5, [1084, 1072, 1103]),
      (6, [1080, 1102, 1085, 1103]),
      (7, [1080, 1102, 1083, 1103]),
      (8, [1072, 1074, 1075, 1091, 1089, 1090, 1072]),
      (9, [1089, 1077, 1085, 1090, 1103, 1073, 1088, 1103]),
      (10, [1086, 1082, 1090, 1103, 1073, 1088, 1103]),
      (11, [1085, 1086, 1103, 1073, 1088, 1103]),
      (12, [1076, 1077, 1082, 1072, 1073, 1088, 1103]) ]"

text \<open>
  \<open>datetime.fromtimestamp(message.date, tz=utc) + timedelta(hours=4)\<close>, then
  \<open>f"{day} {month_ru} v {HH:MM}"\<close>. \<open>datetime\<close> holds the years 1 to 9999 and raises
  outside; day and month come from the day number by the usual Gregorian arithmetic on
  400-year eras that begin on 1 March.
\<close>

definition formatted_date :: "int \<Rightarrow> error + ustr" where
  "formatted_date ts =
     (if ts < - 62135596800 \<or> 253402300799 - 14400 < ts then Inl DateError
      else
        let t = ts + 14400;
            days = t div 86400;
            secs = t mod 86400;
            z = days + 719468;
            era = z div 146097;
            doe = z - era * 146097;
            yoe = (doe - doe div 1460 + doe div 36524 - doe div 146096) div 365;
            doy = doe - (365 * yoe + yoe div 4 - yoe div 100);
            mp = (5 * doy + 2) div 153;
            day = doy - (153 * mp + 2) div 5 + 1;
            month = (if mp < 10 then mp + 3 else mp - 9)
        in case map_of months_ru month of
             None \<Rightarrow> Inl KeyError
           | Some month_ru \<Rightarrow>
               Inr (str_nat (nat day) @ [32] @ month_ru @ [32, 1074, 32] @
                    two_digits (secs div 3600) @ [58] @ two_digits ((secs mod 3600) div 60)))"

definition w_added :: ustr where
  "w_added = [10, 10, 40, 1044, 1086, 1073, 1072, 1074, 1083, 1077, 1085, 1086, 32]"

definition w_by_user :: ustr where
  "w_by_user = [32, 1087, 1086, 1083, 1100, 1079, 1086, 1074, 1072, 1090, 1077, 1083, 1077, 1084, 32]"

definition w_see_photo :: ustr where
  "w_see_photo = [40, 1089, 1084, 46, 32, 1092, 1086, 1090, 1086, 41]"

text \<open>\<open>_save_and_confirm_homework\<close>: the entry's text is the homework text followed by a
  line that says when and by whom it was added; the key is the subject in lower case.\<close>

definition save_and_confirm_homework ::
    "bot \<Rightarrow> message \<Rightarrow> ustr \<Rightarrow> ustr \<Rightarrow> ustr option \<Rightarrow> error + bot \<times> effect list" where
  "save_and_confirm_homework s m subject homework_text photo_file_id =
     (case formatted_date (msg_date m) of
        Inl e \<Rightarrow> Inl e
      | Inr date_text \<Rightarrow>
          let user_mention =
                (case msg_username m of
                   None \<Rightarrow> ascii ''User ID: '' @ str_int (msg_from m)
                 | Some u \<Rightarrow> if u \<noteq> [] then 64 # u else ascii ''User ID: '' @ str_int (msg_from m));
              full_value_text = homework_text @ w_added @ date_text @ w_by_user @ user_mention @ [41];
              key_lower = lower subject
          in Inr (s\<lparr>board_data := setitem (board_data s) key_lower
                       \<lparr>hw_text = full_value_text, photo_id = photo_file_id\<rparr>\<rparr>,
                  [SaveData, Send (msg_chat m) (HomeworkAdded subject (truthy photo_file_id))]))"

section \<open>The guided flow\<close>

text \<open>The buttons of \<open>generate_subject_buttons\<close>: the keys sorted by their lower-case form.\<close>

definition generate_subject_buttons :: "board \<Rightarrow> ustr list" where
  "generate_subject_buttons bd = sort_key lower (keys bd)"

definition handle_callback :: "bot \<Rightarrow> callback \<Rightarrow> bot \<times> effect list" where
  "handle_callback s call =
     (let user = cb_from call; action = cb_data call; chat_id = cb_chat call in
      if action = ascii ''set_info'' then
        (s\<lparr>user_states := (user_states s)
              (user \<mapsto> \<lparr>us_state = waiting_for_subject, us_subject = None\<rparr>)\<rparr>,
         [Send chat_id PromptSubject])
      else if action = ascii ''delete_info'' then (s, [Send chat_id DeleteHelp])
      else if action = ascii ''list'' then
        (if board_data s \<noteq> [] then
           (let markup = generate_subject_buttons (board_data s) in
            if markup = [] then (s, [Send chat_id ListEmpty])
            else (s, [Send chat_id (ChooseSubject markup)]))
         else (s, [Send chat_id ListEmpty]))
      else if startswith action (ascii ''get:'') then
        (let subject = drop 4 action in
         case map_of (board_data s) subject of
           Some homework \<Rightarrow>
             (let full_text = Homework subject (hw_text homework) in
              if chat_id = user then (s, [deliver user (photo_id homework) full_text])
              else (s, [deliver user (photo_id homework) full_text,
                        deliver chat_id (photo_id homework) full_text]))
         | None \<Rightarrow> (s, [Send chat_id (SubjectNotFound subject)]))
      else if action = ascii ''cancel_add_hw'' then
        (if user_states s user \<noteq> None then (drop_state s user, [Send chat_id AddCancelled])
         else (s, [Send chat_id NothingToCancel]))
      else (s, []))"

definition handle_subject_input :: "bot \<Rightarrow> message \<Rightarrow> error + bot \<times> effect list" where
  "handle_subject_input s m =
     (let user = msg_from m; chat_id = msg_chat m in
      if \<not> work_chat chat_id then Inr (drop_state s user, [Send chat_id WorkChatsOnlyFunction])
      else if user \<in> muted_users s then Inr (drop_state s user, [Send chat_id MutedDenied])
      else case msg_text m of
        None \<Rightarrow> Inl AttributeError
      | Some t \<Rightarrow>
          let subject = strip t in
          if subject = [] then Inr (s, [Send chat_id SubjectEmpty])
          else case user_states s user of
            None \<Rightarrow> Inl KeyError
          | Some st \<Rightarrow>
              Inr (s\<lparr>user_states := (user_states s)
                      (user \<mapsto> st\<lparr>us_subject := Some subject,
                                   us_state := waiting_for_homework_details\<rparr>)\<rparr>,
                   [Send chat_id (PromptDetails subject)]))"

definition handle_homework_details_input :: "bot \<Rightarrow> message \<Rightarrow> error + bot \<times> effect list" where
  "handle_homework_details_input s m =
     (let user = msg_from m; chat_id = msg_chat m in
      if \<not> work_chat chat_id then Inr (drop_state s user, [Send chat_id WorkChatsOnlyFunction])
      else if user \<in> muted_users s then Inr (drop_state s user, [Send chat_id MutedDenied])
      else
        let subject = (case user_states s user of None \<Rightarrow> None | Some st \<Rightarrow> us_subject st) in
        if \<not> truthy subject then Inr (drop_state s user, [Send chat_id SubjectMissing])
        else
          let homework_text =
                (case msg_content m of
                   Text t \<Rightarrow> strip t
                 | Photo caption photo \<Rightarrow>
                     (case caption of None \<Rightarrow> [] | Some c \<Rightarrow> if c \<noteq> [] then strip c else [])
                 | _ \<Rightarrow> []);
              photo_file_id =
                (case msg_content m of
                   Photo caption photo \<Rightarrow> if photo \<noteq> [] then Some (last photo) else None
                 | _ \<Rightarrow> None)
          in
          if homework_text = [] \<and> \<not> truthy photo_file_id
          then Inr (s, [Send chat_id DetailsEmpty])
          else
            let homework_text =
                  (if homework_text = [] \<and> truthy photo_file_id then w_see_photo
                   else homework_text)
            in case save_and_confirm_homework s m (case subject of Some v \<Rightarrow> v | None \<Rightarrow> [])
                      homework_text photo_file_id of
                 Inl e \<Rightarrow> Inl e
               | Inr (s', fx) \<Rightarrow> Inr (drop_state s' user, fx))"

section \<open>The commands\<close>

text \<open>\<open>s.find(c, i)\<close>: the index of the first \<open>c\<close> at or after position \<open>i\<close>.\<close>

definition find_from :: "ustr \<Rightarrow> nat \<Rightarrow> nat \<Rightarrow> nat option" where
  "find_from s c i =
     (if c \<in> set (drop i s) then Some (i + length (takeWhile (\<lambda>x. x \<noteq> c) (drop i s)))
      else None)"

text \<open>The end of \<open>set_homework\<close>, once subject and value are cut out of the command.\<close>

definition set_homework_commit ::
    "bot \<Rightarrow> message \<Rightarrow> ustr \<Rightarrow> ustr \<Rightarrow> ustr option \<Rightarrow> error + bot \<times> effect list" where
  "set_homework_commit s m subject val photo_file_id =
     (if subject = [] then Inr (s, [Send (msg_chat m) SetSubjectEmpty])
      else if val = [] \<and> \<not> truthy photo_file_id then Inr (s, [Send (msg_chat m) SetTextEmpty])
      else save_and_confirm_homework s m subject val photo_file_id)"

text \<open>The parsing of \<open>command_text\<close>: \<open>/set "subject of several words" text\<close> or
  \<open>/set subject text\<close>.\<close>

definition set_homework_args ::
    "bot \<Rightarrow> message \<Rightarrow> ustr \<Rightarrow> ustr option \<Rightarrow> error + bot \<times> effect list" where
  "set_homework_args s m command_text photo_file_id =
     (if \<not> startswith (lower command_text) (ascii ''/set '') then Inr (s, [])
      else case split_space1 command_text of
        [] \<Rightarrow> Inr (s, [Send (msg_chat m) SetFormat])
      | [p] \<Rightarrow> Inr (s, [Send (msg_chat m) SetFormat])
      | p # rest # _ \<Rightarrow>
          if strip rest = [] then Inr (s, [Send (msg_chat m) SetFormat])
          else
            let args_line = strip rest in
            if startswith args_line [34] then
              (case find_from args_line 34 1 of
                 None \<Rightarrow> Inr (s, [Send (msg_chat m) SetQuoteError])
               | Some end_quote_index \<Rightarrow>
                   set_homework_commit s m
                     (strip (take (end_quote_index - 1) (drop 1 args_line)))
                     (strip (drop (end_quote_index + 1) args_line)) photo_file_id)
            else
              (case split_space1 args_line of
                 [] \<Rightarrow> Inl IndexError
               | [a] \<Rightarrow> set_homework_commit s m (strip a) [] photo_file_id
               | a # b # _ \<Rightarrow> set_homework_commit s m (strip a) (strip b) photo_file_id))"

text \<open>The \<open>try\<close> block of \<open>set_homework\<close>; the handler answers any exception of the block
  with the error text.\<close>

definition set_homework_try :: "bot \<Rightarrow> message \<Rightarrow> error + bot \<times> effect list" where
  "set_homework_try s m =
     (case msg_content m of
        Photo caption photo \<Rightarrow>
          (case caption of
             None \<Rightarrow> Inr (s, [Send (msg_chat m) SetNeedsCaption])
           | Some c \<Rightarrow>
               if c \<noteq> [] \<and> startswith (lower c) (ascii ''/set '')
               then set_homework_args s m (strip c) (if photo \<noteq> [] then Some (last photo) else None)
               else Inr (s, [Send (msg_chat m) SetNeedsCaption]))
      | Text t \<Rightarrow> set_homework_args s m (strip t) None
      | _ \<Rightarrow> set_homework_args s m [] None)"

definition set_homework :: "bot \<Rightarrow> message \<Rightarrow> bot \<times> effect list" where
  "set_homework s m =
     (let user = msg_from m; chat_id = msg_chat m in
      if user \<in> muted_users s then (s, [Send chat_id MutedDenied])
      else if \<not> work_chat chat_id then (s, [Send chat_id WorkChatsOnlyCommand])
      else case set_homework_try s m of
        Inl e \<Rightarrow> (s, [Send chat_id (SetFailed e)])
      | Inr r \<Rightarrow> r)"

definition delete_board :: "bot \<Rightarrow> message \<Rightarrow> error + bot \<times> effect list" where
  "delete_board s m =
     (let user = msg_from m; chat_id = msg_chat m in
      if user \<in> muted_users s then Inr (s, [Send chat_id MutedDeniedDel])
      else if \<not> work_chat chat_id then Inr (s, [Send chat_id WorkChatsOnlyCommand])
      else case msg_text m of
        None \<Rightarrow> Inl AttributeError
      | Some t \<Rightarrow>
          (case split_space1 t of
             [] \<Rightarrow> Inr (s, [Send chat_id DelFormat])
           | [p] \<Rightarrow> Inr (s, [Send chat_id DelFormat])
           | p # rest # _ \<Rightarrow>
               if strip rest = [] then Inr (s, [Send chat_id DelFormat])
               else
                 let key_to_delete_raw = strip rest;
                     key_to_delete =
                       (if startswith key_to_delete_raw [34] \<and> endswith key_to_delete_raw [34]
                        then lower (strip (butlast (tl key_to_delete_raw)))
                        else lower key_to_delete_raw)
                 in
                 if key_to_delete = [] then Inr (s, [Send chat_id DelSubjectEmpty])
                 else if key_to_delete \<in> set (keys (board_data s)) then
                   Inr (s\<lparr>board_data := delitem (board_data s) key_to_delete\<rparr>,
                        [SaveData, Send chat_id (HomeworkDeleted key_to_delete)])
                 else Inr (s, [Send chat_id (SubjectNotFound key_to_delete)])))"

text \<open>
  \<open>int(s)\<close> in base ten: white space around is dropped, a sign may lead, and one underscore
  may stand between two digits. The digits are the ASCII digits; Python takes the decimal
  digits of other scripts too, which are a ValueError here (\<open>None\<close>).
\<close>

definition is_digit :: "nat \<Rightarrow> bool" where
  "is_digit c \<longleftrightarrow> 48 \<le> c \<and> c \<le> 57"

fun int_digits :: "nat \<Rightarrow> ustr \<Rightarrow> nat option" where
  "int_digits acc [] = Some acc"
| "int_digits acc [c] = (if is_digit c then Some (10 * acc + (c - 48)) else None)"
| "int_digits acc (c # d # ds) =
     (if is_digit c then int_digits (10 * acc + (c - 48)) (d # ds)
      else if c = 95 \<and> is_digit d then int_digits (10 * acc + (d - 48)) ds
      else None)"

definition py_int :: "ustr \<Rightarrow> int option" where
  "py_int s =
     (let t = strip s;
          negative = startswith t [45] \<and> t \<noteq> [];
          body = (if t \<noteq> [] \<and> (hd t = 45 \<or> hd t = 43) then tl t else t)
      in case body of
           [] \<Rightarrow> None
         | c # cs \<Rightarrow>
             if is_digit c
             then map_option (\<lambda>n. if negative then - int n else int n) (int_digits (c - 48) cs)
             else None)"

definition mute_user :: "bot \<Rightarrow> message \<Rightarrow> bot \<times> effect list" where
  "mute_user s m =
     (let user = msg_from m; chat_id = msg_chat m in
      if user \<notin> set ADMIN_ID then (s, [Send chat_id NoRights])
      else case msg_text m of
        None \<Rightarrow> (s, [Send chat_id MuteFailed])
      | Some t \<Rightarrow>
          (case split_space1 t of
             [] \<Rightarrow> (s, [Send chat_id MuteFormat])
           | [p] \<Rightarrow> (s, [Send chat_id MuteFormat])
           | p # arg # _ \<Rightarrow>
               (case py_int arg of
                  None \<Rightarrow> (s, [Send chat_id BadUserId])
                | Some user_id_to_mute \<Rightarrow>
                    (s\<lparr>muted_users := insert user_id_to_mute (muted_users s)\<rparr>,
                     [SaveMuted, Send chat_id (UserMuted user_id_to_mute)]))))"

definition unmute_user :: "bot \<Rightarrow> message \<Rightarrow> bot \<times> effect list" where
  "unmute_user s m =
     (let user = msg_from m; chat_id = msg_chat m in
      if user \<notin> set ADMIN_ID then (s, [Send chat_id NoRights])
      else case msg_text m of
        None \<Rightarrow> (s, [Send chat_id MuteFailed])
      | Some t \<Rightarrow>
          (case split_space1 t of
             [] \<Rightarrow> (s, [Send chat_id MuteFormat])
           | [p] \<Rightarrow> (s, [Send chat_id MuteFormat])
           | p # arg # _ \<Rightarrow>
               (case py_int arg of
                  None \<Rightarrow> (s, [Send chat_id BadUserId])
                | Some user_id_to_unmute \<Rightarrow>
                    (s\<lparr>muted_users := muted_users s - {user_id_to_unmute}\<rparr>,
                     [SaveMuted, Send chat_id (UserUnmuted user_id_to_unmute)]))))"

section \<open>Free-text queries\<close>

text \<open>\<open>handle_general_queries\<close>: a text that is no command is given to the resolver; an
  exception of the resolver is caught and logged, and nothing is sent.\<close>

definition handle_general_queries :: "bot \<Rightarrow> message \<Rightarrow> bot \<times> effect list" where
  "handle_general_queries s m =
     (case msg_text m of
        None \<Rightarrow> (s, [])
      | Some t \<Rightarrow>
          let text = strip t in
          if text = [] then (s, [])
          else if startswith text [47] then (s, [])
          else case find_subject_in_message (board_data s) text of
            Inl e \<Rightarrow> (s, [])
          | Inr None \<Rightarrow> (s, [])
          | Inr (Some subject_key) \<Rightarrow>
              if subject_key = [] then (s, [])
              else case map_of (board_data s) subject_key of
                None \<Rightarrow> (s, [])
              | Some homework \<Rightarrow>
                  (let full_text = Homework subject_key (hw_text homework);
                       origin_chat_id = msg_chat m;
                       user_id = msg_from m
                   in if msg_chat_private m \<or> origin_chat_id = user_id
                      then (s, [deliver user_id (photo_id homework) full_text])
                      else (s, [deliver user_id (photo_id homework) full_text,
                                deliver origin_chat_id (photo_id homework) full_text])))"

section \<open>The dispatcher\<close>

text \<open>
  The handlers are registered with the decorators of pyTelegramBotAPI, which tests the
  message handlers in the order of their registration and runs the first whose filters all
  pass; a message that passes none is ignored. A handler without \<open>content_types\<close> takes
  text messages only. The filter \<open>commands\<close> passes a text message that starts with \<open>/\<close>
  and whose first word, cut at \<open>@\<close> and without the slash, is one of the names. A press of
  an inline button is a callback query, and the one callback handler takes them all.
\<close>

datatype route =
    Handle_sticker
  | Cmd_msgu
  | Handle_subject_input
  | Handle_homework_details_input
  | Set_homework
  | Delete_board
  | Send_welcome
  | Mute_user
  | Restart_bot
  | Unmute_user
  | Handle_general_queries
  | Handle_callback

datatype event = Message message | CallbackQuery callback

definition extract_command :: "ustr \<Rightarrow> ustr option" where
  "extract_command t =
     (if startswith t [47] then
        (case split_ws t of [] \<Rightarrow> None | w # _ \<Rightarrow> Some (tl (takeWhile (\<lambda>c. c \<noteq> 64) w)))
      else None)"

definition is_command :: "string \<Rightarrow> message \<Rightarrow> bool" where
  "is_command name m \<longleftrightarrow>
     (case msg_content m of Text t \<Rightarrow> extract_command t = Some (ascii name) | _ \<Rightarrow> False)"

definition is_text :: "message \<Rightarrow> bool" where
  "is_text m \<longleftrightarrow> (case msg_content m of Text t \<Rightarrow> True | _ \<Rightarrow> False)"

definition is_photo :: "message \<Rightarrow> bool" where
  "is_photo m \<longleftrightarrow> (case msg_content m of Photo c p \<Rightarrow> True | _ \<Rightarrow> False)"

definition is_sticker :: "message \<Rightarrow> bool" where
  "is_sticker m \<longleftrightarrow> (case msg_content m of Sticker n \<Rightarrow> True | _ \<Rightarrow> False)"

text \<open>\<open>user_states.get(message.from_user.id, {}).get("state") == p\<close>.\<close>

definition in_state :: "bot \<Rightarrow> message \<Rightarrow> phase \<Rightarrow> bool" where
  "in_state s m p \<longleftrightarrow>
     (case user_states s (msg_from m) of None \<Rightarrow> False | Some st \<Rightarrow> us_state st = p)"

definition message_handlers :: "(route \<times> (bot \<Rightarrow> message \<Rightarrow> bool)) list" where
  "message_handlers =
    [ (Handle_sticker, \<lambda>s m. is_sticker m),
      (Cmd_msgu, \<lambda>s m. is_text m \<and> is_command ''msgu'' m),
      (Handle_subject_input, \<lambda>s m. in_state s m waiting_for_subject \<and> is_text m),
      (Handle_homework_details_input,
         \<lambda>s m. in_state s m waiting_for_homework_details \<and> (is_text m \<or> is_photo m)),
      (Set_homework, \<lambda>s m. is_command ''set'' m \<and> (is_text m \<or> is_photo m)),
      (Delete_board, \<lambda>s m. is_text m \<and> is_command ''del'' m),
      (Send_welcome, \<lambda>s m. is_text m \<and> is_command ''start'' m),
      (Mute_user, \<lambda>s m. is_text m \<and> is_command ''mute'' m),
      (Restart_bot, \<lambda>s m. is_text m \<and> is_command ''restart'' m),
      (Unmute_user, \<lambda>s m. is_text m \<and> is_command ''unmute'' m),
      (Handle_general_queries, \<lambda>s m. is_text m) ]"

definition dispatch :: "bot \<Rightarrow> event \<Rightarrow> route option" where
  "dispatch s ev =
     (case ev of
        CallbackQuery call \<Rightarrow> Some Handle_callback
      | Message m \<Rightarrow> map_option fst (find (\<lambda>(r, f). f s m) message_handlers))"

section \<open>Notions used in the properties\<close>

subsection \<open>The resolver, pattern by pattern\<close>

text \<open>What one pattern contributes to a query: it does not match, it matches and none of
  its candidates resolves, it matches and a candidate resolves to a key, or the handling of
  its subject block raises.\<close>

datatype outcome = NoMatch | Unresolved | Resolved ustr | Crashed error

text \<open>The key a single candidate resolves to: the alias map at the candidate, else at its
  first four characters without spaces.\<close>

definition lookup_candidate :: "(ustr \<rightharpoonup> ustr) \<Rightarrow> ustr \<Rightarrow> ustr option" where
  "lookup_candidate alias_map cand =
     (if cand = [] then None
      else case alias_map cand of
        Some k \<Rightarrow> Some k
      | None \<Rightarrow> alias_map (take 4 (remove_spaces cand)))"

definition pattern_outcome :: "(ustr \<rightharpoonup> ustr) \<Rightarrow> ustr \<Rightarrow> regex \<Rightarrow> outcome" where
  "pattern_outcome alias_map text_norm pattern =
     (case re_search pattern text_norm of
        None \<Rightarrow> NoMatch
      | Some g \<Rightarrow>
          (case g of
             [] \<Rightarrow> Crashed IndexError
           | (lastindex, block) # _ \<Rightarrow>
               if block = [] then Unresolved
               else case split_ws (strip block) of
                 [] \<Rightarrow> Crashed IndexError
               | first_word # _ \<Rightarrow>
                   (case List.map_filter (lookup_candidate alias_map)
                           (candidates first_word (strip block)) of
                      [] \<Rightarrow> Unresolved
                    | k # _ \<Rightarrow> Resolved k)))"

definition decisive :: "outcome \<Rightarrow> bool" where
  "decisive out = (case out of Resolved k \<Rightarrow> True | Crashed e \<Rightarrow> True | _ \<Rightarrow> False)"

definition answer :: "outcome option \<Rightarrow> error + ustr option" where
  "answer out =
     (case out of
        Some (Resolved k) \<Rightarrow> Inr (Some k)
      | Some (Crashed e) \<Rightarrow> Inl e
      | _ \<Rightarrow> Inr None)"

text \<open>The resolver as the specification words it: only the first pattern that matches is
  used, and its candidates decide.\<close>

definition first_match_resolver :: "board \<Rightarrow> ustr \<Rightarrow> error + ustr option" where
  "first_match_resolver bd text =
     (if text = [] then Inr None
      else
        let text_norm = strip (lower text); alias_map = build_subject_alias_map bd in
        answer (map_option (pattern_outcome alias_map text_norm)
                  (find (\<lambda>p. re_search p text_norm \<noteq> None) patterns)))"

text \<open>The resolver with fall-through: the patterns are taken in order, and the first one
  that resolves to a key (or raises) decides.\<close>

definition fallthrough_resolver :: "board \<Rightarrow> ustr \<Rightarrow> error + ustr option" where
  "fallthrough_resolver bd text =
     (if text = [] then Inr None
      else
        let text_norm = strip (lower text); alias_map = build_subject_alias_map bd in
        answer (find decisive (map (pattern_outcome alias_map text_norm) patterns)))"

subsection \<open>The invariant of the store\<close>

definition key_ok :: "ustr \<Rightarrow> bool" where
  "key_ok k \<longleftrightarrow> lower k = k \<and> strip k = k \<and> k \<noteq> []"

definition store_inv :: "board \<Rightarrow> bool" where
  "store_inv bd \<longleftrightarrow> list_all key_ok (keys bd)"

text \<open>The subject a user's flow is waiting with is trimmed: the guided flow lower-cases it
  into a key only later.\<close>

definition flow_inv :: "(int \<rightharpoonup> user_state) \<Rightarrow> bool" where
  "flow_inv us \<longleftrightarrow>
     (\<forall>u st sub. us u = Some st \<and> us_subject st = Some sub \<longrightarrow> strip sub = sub)"

definition bot_inv :: "bot \<Rightarrow> bool" where
  "bot_inv s \<longleftrightarrow> store_inv (board_data s) \<and> flow_inv (user_states s)"

subsection \<open>The precedence of the dispatcher\<close>

text \<open>The order of the registrations, written as one chain of tests.\<close>

definition precedence :: "bot \<Rightarrow> message \<Rightarrow> route option" where
  "precedence s m =
     (if is_sticker m then Some Handle_sticker
      else if is_command ''msgu'' m then Some Cmd_msgu
      else if is_text m \<and> in_state s m waiting_for_subject then Some Handle_subject_input
      else if (is_text m \<or> is_photo m) \<and> in_state s m waiting_for_homework_details
        then Some Handle_homework_details_input
      else if is_command ''set'' m then Some Set_homework
      else if is_command ''del'' m then Some Delete_board
      else if is_command ''start'' m then Some Send_welcome
      else if is_command ''mute'' m then Some Mute_user
      else if is_command ''restart'' m then Some Restart_bot
      else if is_command ''unmute'' m then Some Unmute_user
      else if is_text m then Some Handle_general_queries
      else None)"

section \<open>Example data\<close>

text \<open>The subject keys and query texts of the resolver examples, in code points:
  \<open>matematika\<close> and \<open>angliyskiy\<close> are the two store keys (mathematics, English), the
  queries ask "what was assigned for mathematics", "what for Engl" and "what was assigned
  for physics".\<close>

definition k_matematika :: ustr where
  "k_matematika = [1084, 1072, 1090, 1077, 1084, 1072, 1090, 1080, 1082, 1072]"

definition k_angliyskiy :: ustr where
  "k_angliyskiy = [1072, 1085, 1075, 1083, 1080, 1081, 1089, 1082, 1080, 1081]"

definition q_matematike :: ustr where
  "q_matematike = [1095, 1090, 1086, 32, 1079, 1072, 1076, 1072, 1083, 1080, 32, 1087, 1086, 32,
                   1084, 1072, 1090, 1077, 1084, 1072, 1090, 1080, 1082, 1077]"

definition q_angl :: ustr where
  "q_angl = [1095, 1090, 1086, 32, 1087, 1086, 32, 1072, 1085, 1075, 1083]"

definition q_fizike :: ustr where
  "q_fizike = [1095, 1090, 1086, 32, 1079, 1072, 1076, 1072, 1083, 1080, 32, 1087, 1086, 32,
               1092, 1080, 1079, 1080, 1082, 1077]"

definition q_math :: ustr where
  "q_math = [1095, 1090, 1086, 32, 1087, 1086, 32] @ ascii ''math''"

definition k_predmet :: ustr where
  "k_predmet = [1087, 1088, 1077, 1076, 1084, 1077, 1090]"

definition no_entry :: entry where
  "no_entry = \<lparr>hw_text = [], photo_id = None\<rparr>"

text \<open>A pupil with user id 7 writes in the first of the work chats; no other chat of the
  examples is a work chat.\<close>

definition msg_of :: "int \<Rightarrow> content \<Rightarrow> message" where
  "msg_of chat c =
     \<lparr>msg_from = 7, msg_username = None, msg_chat = chat, msg_chat_private = False,
      msg_content = c, msg_date = 1700000000\<rparr>"

definition admin_msg :: "content \<Rightarrow> message" where
  "admin_msg c =
     \<lparr>msg_from = 6066445210, msg_username = None, msg_chat = 6066445210,
      msg_chat_private = True, msg_content = c, msg_date = 1700000000\<rparr>"

definition bot_of :: "board \<Rightarrow> int set \<Rightarrow> (int \<rightharpoonup> user_state) \<Rightarrow> bot" where
  "bot_of bd muted us = \<lparr>board_data = bd, muted_users = muted, user_states = us\<rparr>"

definition asking_subject :: "int \<rightharpoonup> user_state" where
  "asking_subject = [7 \<mapsto> \<lparr>us_state = waiting_for_subject, us_subject = None\<rparr>]"


section \<open>Facts about strings and the store\<close>

lemma is_space_lower_cp: "is_space (lower_cp c) = is_space c"
  unfolding is_space_def lower_cp_def by (simp; presburger)

lemma lower_cp_idem: "lower_cp (lower_cp c) = lower_cp c"
  unfolding lower_cp_def by (simp; presburger)

lemma lower_lower: "lower (lower s) = lower s"
  by (simp add: lower_def lower_cp_idem)

lemma lower_Nil_iff: "lower s = [] \<longleftrightarrow> s = []"
  by (simp add: lower_def)

lemma strip_lower: "strip (lower s) = lower (strip s)"
  by (simp add: strip_def lstrip_def rstrip_def lower_def dropWhile_map rev_map comp_def
      is_space_lower_cp)

lemma dropWhile_same_length: "length xs \<le> length (dropWhile P xs) \<Longrightarrow> dropWhile P xs = xs"
proof (induction xs)
  case Nil
  then show ?case by simp
next
  case (Cons x xs)
  show ?case
  proof (cases "P x")
    case True
    have "length (dropWhile P xs) \<le> length xs" by (rule length_dropWhile_le)
    with Cons.prems True show ?thesis by simp
  next
    case False
    then show ?thesis by simp
  qed
qed

lemma trimmed_iff:
  "strip s = s \<longleftrightarrow> s = [] \<or> (\<not> is_space (hd s) \<and> \<not> is_space (last s))"
proof (cases "s = []")
  case True
  then show ?thesis by (simp add: strip_def lstrip_def rstrip_def)
next
  case False
  show ?thesis
  proof
    assume eq: "strip s = s"
    have "length (rev (dropWhile is_space (rev (dropWhile is_space s))))
            \<le> length (dropWhile is_space s)"
      by (metis length_dropWhile_le length_rev)
    with eq have "length s \<le> length (dropWhile is_space s)"
      by (simp add: strip_def lstrip_def rstrip_def)
    then have l: "dropWhile is_space s = s"
      by (rule dropWhile_same_length)
    with eq have r: "dropWhile is_space (rev s) = rev s"
      by (simp add: lstrip_def rev_swap rstrip_def strip_def)
    from l r show "s = [] \<or> (\<not> is_space (hd s) \<and> \<not> is_space (last s))"
      by (metis dropWhile_eq_self_iff hd_Nil_eq_last hd_rev last_rev)
  next
    assume "s = [] \<or> (\<not> is_space (hd s) \<and> \<not> is_space (last s))"
    with False have h: "\<not> is_space (hd s)" "\<not> is_space (last s)" by auto
    from h(1) False have a: "dropWhile is_space s = s" by (simp add: dropWhile_eq_self_iff)
    from h(2) False have "dropWhile is_space (rev s) = rev s"
      by (simp add: dropWhile_eq_self_iff hd_rev)
    with a show "strip s = s" by (simp add: strip_def lstrip_def rstrip_def)
  qed
qed

lemma strip_strip: "strip (strip s) = strip s"
proof (cases "dropWhile is_space s = []")
  case True
  show ?thesis unfolding strip_def lstrip_def rstrip_def True by simp
next
  case False
  define a where "a = dropWhile is_space s"
  define b where "b = dropWhile is_space (rev a)"
  from False have a: "a \<noteq> []" "\<not> is_space (hd a)"
    by (simp_all add: a_def hd_dropWhile)
  then have mem: "hd a \<in> set (rev a)" by simp
  from a have la: "last (rev a) = hd a" by (simp add: last_rev)
  from mem a(2) have b: "b \<noteq> []"
    unfolding b_def by (metis dropWhile_eq_Nil_conv)
  from mem a(2) la have lb: "last b = hd a"
    unfolding b_def by (metis dropWhile_last)
  from b have hb: "\<not> is_space (hd b)"
    unfolding b_def by (rule hd_dropWhile)
  have "rev b \<noteq> []" "\<not> is_space (hd (rev b))" "\<not> is_space (last (rev b))"
    using b lb hb a(2) by (simp_all add: hd_rev last_rev)
  then have "strip (rev b) = rev b" by (simp add: trimmed_iff)
  moreover have "strip s = rev b"
    by (simp add: strip_def lstrip_def rstrip_def a_def b_def)
  ultimately show ?thesis by simp
qed

lemma key_ok_lower: "strip sub = sub \<Longrightarrow> sub \<noteq> [] \<Longrightarrow> key_ok (lower sub)"
  by (simp add: key_ok_def lower_lower strip_lower lower_Nil_iff)

lemma key_ok_lower_strip: "strip t \<noteq> [] \<Longrightarrow> key_ok (lower (strip t))"
  by (simp add: key_ok_lower strip_strip)

lemma keys_setitem: "set (keys (setitem bd k v)) = insert k (set (keys bd))"
  by (induction bd k v rule: setitem.induct) (auto simp: keys_def)

lemma keys_delitem: "keys (delitem bd k) = filter (\<lambda>k'. k' \<noteq> k) (keys bd)"
  by (induction bd) (auto simp: keys_def delitem_def)

lemma map_of_delitem: "map_of (delitem bd k) = (map_of bd)(k := None)"
  by (induction bd) (auto simp: delitem_def fun_eq_iff)

lemma store_inv_setitem: "store_inv bd \<Longrightarrow> key_ok k \<Longrightarrow> store_inv (setitem bd k v)"
  by (simp add: store_inv_def list_all_iff keys_setitem)

lemma store_inv_delitem: "store_inv bd \<Longrightarrow> store_inv (delitem bd k)"
  by (simp add: store_inv_def list_all_iff keys_delitem)

section \<open>The resolver on the examples\<close>

lemmas string_defs =
  ascii_def strip_def lstrip_def rstrip_def lower_def lower_cp_def is_space_def is_word_def
  startswith_def endswith_def remove_spaces_def remove_quotes_def split_ws_def split_space1_def

lemmas resolver_defs =
  patterns_def ws_plus_def w_chto_def w_po_def w_zadali_def w_kakoe_def w_d_def
  find_subject_in_message_def build_subject_alias_map_def alias_step_def keys_def Let_def
  normalize_word_def candidates_def

lemmas example_defs =
  k_matematika_def k_angliyskiy_def q_matematike_def q_angl_def q_fizike_def q_math_def
  k_predmet_def no_entry_def

text \<open>
  Claim C1. With the store holding exactly the keys \<open>matematika\<close> and \<open>angliyskiy\<close>, in
  either insertion order and with any entries, the resolver answers the first query with
  \<open>matematika\<close>, the second with \<open>angliyskiy\<close>, and the third with \<open>None\<close>. The second
  query's subject block is \<open>angl\<close>, which is the alias made of the first four characters of
  \<open>angliyskiy\<close>.
\<close>

theorem resolver_examples:
  "find_subject_in_message [(k_matematika, v), (k_angliyskiy, w)] q_matematike
     = Inr (Some k_matematika) \<and>
   find_subject_in_message [(k_matematika, v), (k_angliyskiy, w)] q_angl
     = Inr (Some k_angliyskiy) \<and>
   find_subject_in_message [(k_matematika, v), (k_angliyskiy, w)] q_fizike = Inr None \<and>
   find_subject_in_message [(k_angliyskiy, w), (k_matematika, v)] q_matematike
     = Inr (Some k_matematika) \<and>
   find_subject_in_message [(k_angliyskiy, w), (k_matematika, v)] q_angl
     = Inr (Some k_angliyskiy) \<and>
   find_subject_in_message [(k_angliyskiy, w), (k_matematika, v)] q_fizike = Inr None \<and>
   re_search (hd patterns) q_angl = Some [(2, take 4 k_angliyskiy), (1, w_po)] \<and>
   build_subject_alias_map [(k_matematika, v), (k_angliyskiy, w)] (take 4 k_angliyskiy)
     = Some k_angliyskiy"
  by (simp add: example_defs resolver_defs string_defs)

section \<open>The resolver falls through to later patterns\<close>

lemma try_candidates_map_filter:
  "try_candidates am cs =
     (case List.map_filter (lookup_candidate am) cs of [] \<Rightarrow> None | k # _ \<Rightarrow> Some k)"
  by (induction cs) (auto simp: List.map_filter_simps lookup_candidate_def split: option.splits)

lemma try_patterns_find:
  "try_patterns am t ps = answer (find decisive (map (pattern_outcome am t) ps))"
proof (induction ps)
  case Nil
  show ?case by (simp add: answer_def)
next
  case (Cons p ps)
  show ?case
    using Cons.IH
    by (auto simp: pattern_outcome_def decisive_def answer_def try_candidates_map_filter Let_def
        split: option.splits list.splits)
qed

text \<open>
  Claim C2, as the specification states it, says that only the first pattern that matches
  is used. On the store with the one key \<open>matematika\<close> and the first example query the
  first pattern matches with the subject block "po matematike", none of whose candidates
  resolves, and the resolver still answers \<open>matematika\<close>, through the third pattern; the
  resolver of the claim's words answers \<open>None\<close>.
\<close>

theorem first_match_only_counterexample:
  "find_subject_in_message [(k_matematika, no_entry)] q_matematike = Inr (Some k_matematika) \<and>
   first_match_resolver [(k_matematika, no_entry)] q_matematike = Inr None"
  by (simp add: example_defs resolver_defs string_defs first_match_resolver_def
      pattern_outcome_def lookup_candidate_def answer_def List.map_filter_simps)

text \<open>
  Claim C2, amended. For every store and every text the resolver takes the patterns in
  their listed order; a pattern that matches contributes its last group as the subject
  block and the candidates of that block, in order; the answer is the first key found, a
  pattern whose candidates do not resolve being followed by the next pattern; the answer is
  \<open>None\<close> only when no matching pattern has a candidate that resolves.
\<close>

theorem resolver_falls_through:
  "find_subject_in_message bd text = fallthrough_resolver bd text"
  by (simp add: find_subject_in_message_def fallthrough_resolver_def try_patterns_find Let_def)

section \<open>The resolver answers with keys of the store\<close>

lemma ran_alias_step: "ran (alias_step k m) \<subseteq> insert (lower k) (ran m)"
  by (auto simp: alias_step_def Let_def ran_def split: if_splits)

lemma ran_fold_alias_step: "ran (fold alias_step ks m) \<subseteq> lower ` set ks \<union> ran m"
proof (induction ks arbitrary: m)
  case Nil
  show ?case by simp
next
  case (Cons k ks)
  from Cons.IH [of "alias_step k m"] ran_alias_step [of k m] show ?case by auto
qed

lemma try_candidates_ran: "try_candidates am cs = Some k \<Longrightarrow> k \<in> ran am"
  by (induction cs) (auto simp: ran_def split: if_splits option.splits)

lemma try_patterns_ran: "try_patterns am t ps = Inr (Some k) \<Longrightarrow> k \<in> ran am"
  by (induction ps) (auto dest: try_candidates_ran simp: Let_def split: option.splits list.splits if_splits)

text \<open>
  Claim C9, as stated for every store, fails on a store with a key that is not in lower
  case, as a store read from the data file may be: the alias map holds the lower-cased key,
  and the resolver answers \<open>math\<close>, which is no key of the store whose key is \<open>Math\<close>.
\<close>

theorem resolver_foreign_key_counterexample:
  "find_subject_in_message [(ascii ''Math'', no_entry)] q_math = Inr (Some (ascii ''math'')) \<and>
   ascii ''math'' \<notin> set (keys [(ascii ''Math'', no_entry)])"
  by (simp add: example_defs resolver_defs string_defs)

text \<open>
  Claim C9, amended. For every store whose keys are all in lower case, as every key that
  the bot writes is, every value of the alias map is a key of the store, and an answer of
  the resolver that is a key is a key of the store.
\<close>

theorem resolver_answers_store_key:
  assumes "\<forall>k \<in> set (keys bd). lower k = k"
  shows "ran (build_subject_alias_map bd) \<subseteq> set (keys bd) \<and>
         (find_subject_in_message bd text = Inr (Some k) \<longrightarrow> k \<in> set (keys bd))"
proof -
  have "ran (build_subject_alias_map bd) \<subseteq> lower ` set (keys bd)"
    using ran_fold_alias_step [of "keys bd" Map.empty]
    by (simp add: build_subject_alias_map_def)
  also from assms have "lower ` set (keys bd) = set (keys bd)" by force
  finally have sub: "ran (build_subject_alias_map bd) \<subseteq> set (keys bd)" .
  moreover have "k \<in> set (keys bd)" if "find_subject_in_message bd text = Inr (Some k)"
  proof -
    from that have "try_patterns (build_subject_alias_map bd) (strip (lower text)) patterns
        = Inr (Some k)"
      by (simp add: find_subject_in_message_def split: if_splits)
    then have "k \<in> ran (build_subject_alias_map bd)" by (rule try_patterns_ran)
    with sub show ?thesis by blast
  qed
  ultimately show ?thesis by blast
qed

theorem resolver_answers_store_key_witness:
  "find_subject_in_message [(k_matematika, no_entry)] q_matematike = Inr (Some k_matematika) \<and>
   k_matematika \<in> set (keys [(k_matematika, no_entry)])"
proof -
  have low: "\<forall>k \<in> set (keys [(k_matematika, no_entry)]). lower k = k"
    by (simp add: keys_def k_matematika_def lower_def lower_cp_def)
  have res: "find_subject_in_message [(k_matematika, no_entry)] q_matematike
      = Inr (Some k_matematika)"
    by (simp add: example_defs resolver_defs string_defs)
  from resolver_answers_store_key [OF low, of q_matematike k_matematika] res
  show ?thesis by blast
qed

end
